theory Spec2Isabelle
  imports Main
begin

section \<open>Documents of the store\<close>

text \<open>
  ObjectIds are natural numbers.  A thrown \<open>AppError(message, statusCode)\<close> is the value
  \<open>AppError message statusCode\<close>; a Mongoose validation failure raised by \<open>save\<close> or
  \<open>create\<close> is \<open>ValidationError\<close>, a duplicate-key failure of a unique index (code
  11000) is \<open>DuplicateKey\<close>; a property read on \<open>undefined\<close> is \<open>TypeError\<close>.
  Every controller returns \<open>Inl\<close> of the error it hands to \<open>next(error)\<close>, or \<open>Inr\<close> of
  its result.  Reads and writes of the store itself are taken to complete.
\<close>

type_synonym oid = nat

datatype error = AppError string nat | ValidationError | DuplicateKey | TypeError

datatype role = Buyer | Seller | Agent | Manager | Admin

datatype verification = VNone | VPending | VVerified | VRejected

datatype jsval = JUndefined | JNull | JBool bool | JNum int | JStr string | JId oid
  | JArr "jsval list" | JObj "(string \<times> jsval) list"

record onboarding =
  oc_buyer :: bool
  oc_seller :: bool
  oc_agent :: bool

record saved_search =
  ss_name :: string
  ss_filters :: "(string \<times> jsval) list"
  ss_emailAlerts :: bool
  ss_frequency :: string

record preferences =
  propertyTypes :: "string list"
  priceRange :: "int list"
  locations :: "string list"
  notifications :: bool

text \<open>The paths of \<open>UserSchema\<close> (models/User.ts) that the controllers below read or write.\<close>

record user_doc =
  u_id :: oid
  role :: role
  onboardingCompleted :: onboarding
  officeId :: "oid option"
  user_preferences :: preferences
  savedSearches :: "saved_search list"
  agentId :: "oid option"
  agentVerificationStatus :: verification
  isProfileComplete :: bool

text \<open>
  \<open>AgentSchema\<close>: \<open>userId\<close>, \<open>bio\<close>, \<open>office\<close> and \<open>licenseNumber\<close> are \<open>required\<close>;
  \<open>isActive\<close> defaults to false.
\<close>

record agent_doc =
  a_id :: oid
  userId :: oid
  bio :: "string option"
  licenseNumber :: "string option"
  licenseState :: "string option"
  licenseExpiration :: "string option"
  yearsExperience :: int
  specialties :: "string list"
  languages :: "string list"
  a_office :: "oid option"
  socialMedia :: "(string \<times> jsval) list"
  isActive :: bool

datatype pstatus = Active | Pending | Sold | OffMarket

text \<open>
  \<open>PropertySchema\<close>: \<open>listingAgent\<close> and \<open>listingOffice\<close> are \<open>required\<close> references
  (to Agent and to Office), \<open>seller\<close> defaults to null.  The descriptive paths
  (title, price, address, ...) are not touched by the operations modelled here.
\<close>

record property_doc =
  p_id :: oid
  status :: pstatus
  listingAgent :: "oid option"
  listingOffice :: "oid option"
  p_seller :: "oid option"

text \<open>
  \<open>OfficeSchema\<close>: the relationship paths are typed; every other path that was set on the
  document is kept by name in \<open>o_fields\<close>.
\<close>

record office_doc =
  o_id :: oid
  o_franchiseId :: string
  o_manager :: oid
  o_agents :: "oid list"
  o_totalAgents :: nat
  o_fields :: "(string \<times> jsval) list"

record store =
  users :: "user_doc list"
  agents :: "agent_doc list"
  offices :: "office_doc list"
  properties :: "property_doc list"
  next_id :: oid

subsection \<open>Model queries and saves\<close>

definition User_findById :: "oid \<Rightarrow> store \<Rightarrow> user_doc option" where
  "User_findById i s = find (\<lambda>u. u_id u = i) (users s)"

definition User_findOne_agentId :: "oid \<Rightarrow> store \<Rightarrow> user_doc option" where
  "User_findOne_agentId a s = find (\<lambda>u. agentId u = Some a) (users s)"

text \<open>\<open>user.save()\<close>: the stored document with the same \<open>_id\<close> is replaced.\<close>

definition User_save :: "user_doc \<Rightarrow> store \<Rightarrow> store" where
  "User_save u s = s\<lparr>users := map (\<lambda>x. if u_id x = u_id u then u else x) (users s)\<rparr>"

definition Agent_findById :: "oid \<Rightarrow> store \<Rightarrow> agent_doc option" where
  "Agent_findById i s = find (\<lambda>a. a_id a = i) (agents s)"

definition Agent_findOne_userId :: "oid \<Rightarrow> store \<Rightarrow> agent_doc option" where
  "Agent_findOne_userId u s = find (\<lambda>a. userId a = u) (agents s)"

definition Agent_replace :: "agent_doc \<Rightarrow> store \<Rightarrow> store" where
  "Agent_replace a s = s\<lparr>agents := map (\<lambda>x. if a_id x = a_id a then a else x) (agents s)\<rparr>"

definition Property_findById :: "oid \<Rightarrow> store \<Rightarrow> property_doc option" where
  "Property_findById i s = find (\<lambda>p. p_id p = i) (properties s)"

section \<open>RoleController (controllers/role.controllers.ts)\<close>

text \<open>The body of the onboarding request, \<open>req.body.onboardingData\<close>; an absent key is \<open>None\<close>.\<close>

record onboarding_data =
  d_propertyTypes :: "string list option"
  d_priceRange :: "int list option"
  d_locations :: "string list option"
  d_notifications :: "bool option"
  d_bedrooms :: "int option"
  d_bathrooms :: "int option"
  d_emailAlerts :: "bool option"
  d_hasProperty :: "bool option"

text \<open>
  \<open>["buyer", "seller", "agent"].includes(role)\<close> followed by \<open>user.role = role\<close>: the
  role to store, or \<open>None\<close> when the request's role is not one of the three.
\<close>

definition selectable_role :: "string \<Rightarrow> role option" where
  "selectable_role r =
     (if r = ''buyer'' then Some Buyer else if r = ''seller'' then Some Seller
      else if r = ''agent'' then Some Agent else None)"

text \<open>
  \<open>user.onboardingCompleted[user.role]\<close>: the object has the keys buyer, seller and agent;
  any other key reads \<open>undefined\<close>, here \<open>None\<close>.
\<close>

fun onboardingCompleted_at :: "onboarding \<Rightarrow> role \<Rightarrow> bool option" where
  "onboardingCompleted_at oc Buyer = Some (oc_buyer oc)"
| "onboardingCompleted_at oc Seller = Some (oc_seller oc)"
| "onboardingCompleted_at oc Agent = Some (oc_agent oc)"
| "onboardingCompleted_at oc Manager = None"
| "onboardingCompleted_at oc Admin = None"

definition selectRole :: "user_doc option \<Rightarrow> oid \<Rightarrow> string \<Rightarrow> store \<Rightarrow> error + store" where
  "selectRole req_user uid r s =
     (if map_option u_id req_user \<noteq> Some uid then Inl (AppError ''Unauthorized access'' 403)
      else case selectable_role r of
        None \<Rightarrow> Inl (AppError ''Invalid role. Must be buyer, seller, or agent'' 400)
      | Some new_role \<Rightarrow>
         (case User_findById uid s of
            None \<Rightarrow> Inl (AppError ''User not found'' 404)
          | Some user \<Rightarrow>
              let user1 = user\<lparr>role := new_role\<rparr>;
                  user2 = (if new_role = Agent then user1\<lparr>agentVerificationStatus := VNone\<rparr>
                           else user1)
              in Inr (User_save user2 s)))"

definition js_strs :: "string list option \<Rightarrow> jsval" where
  "js_strs x = (case x of None \<Rightarrow> JUndefined | Some l \<Rightarrow> JArr (map JStr l))"

definition js_nums :: "int list option \<Rightarrow> jsval" where
  "js_nums x = (case x of None \<Rightarrow> JUndefined | Some l \<Rightarrow> JArr (map JNum l))"

definition js_num :: "int option \<Rightarrow> jsval" where
  "js_num x = (case x of None \<Rightarrow> JUndefined | Some n \<Rightarrow> JNum n)"

text \<open>\<open>xs?.length > 0\<close>: false when \<open>xs\<close> is absent.\<close>

definition nonempty_opt :: "'a list option \<Rightarrow> bool" where
  "nonempty_opt x = (case x of None \<Rightarrow> False | Some l \<Rightarrow> 0 < length l)"

definition completeBuyerOnboarding :: "user_doc \<Rightarrow> onboarding_data \<Rightarrow> user_doc" where
  "completeBuyerOnboarding user d =
     (let user1 = user\<lparr>user_preferences :=
            \<lparr>propertyTypes = (case d_propertyTypes d of None \<Rightarrow> [] | Some l \<Rightarrow> l),
             priceRange = (case d_priceRange d of None \<Rightarrow> [0, 1000000] | Some l \<Rightarrow> l),
             locations = (case d_locations d of None \<Rightarrow> [] | Some l \<Rightarrow> l),
             notifications = (d_notifications d \<noteq> Some False)\<rparr>\<rparr>
      in if nonempty_opt (d_propertyTypes d) \<or> nonempty_opt (d_locations d)
         then user1\<lparr>savedSearches := savedSearches user1 @
            [\<lparr>ss_name = ''My Initial Search'',
              ss_filters = [(''propertyTypes'', js_strs (d_propertyTypes d)),
                            (''priceRange'', js_nums (d_priceRange d)),
                            (''locations'', js_strs (d_locations d)),
                            (''bedrooms'', js_num (d_bedrooms d)),
                            (''bathrooms'', js_num (d_bathrooms d))],
              ss_emailAlerts = (d_emailAlerts d = Some True),
              ss_frequency = ''weekly''\<rparr>]\<rparr>
         else user1)"

text \<open>
  \<open>completeSellerOnboarding\<close> rebuilds \<open>user.preferences\<close> from its own spread plus a
  \<open>sellerData\<close> key.  \<open>sellerData\<close> is not a path of \<open>UserSchema.preferences\<close>, so the
  declared paths keep their values.
\<close>

definition completeSellerOnboarding :: "user_doc \<Rightarrow> onboarding_data \<Rightarrow> user_doc" where
  "completeSellerOnboarding user d =
     (if d_hasProperty d = Some True then user\<lparr>user_preferences := user_preferences user\<rparr>
      else user)"

definition validRoles :: "string list" where
  "validRoles = [''buyer'', ''seller'']"

definition set_onboardingCompleted :: "string \<Rightarrow> onboarding \<Rightarrow> onboarding" where
  "set_onboardingCompleted r oc =
     (if r = ''buyer'' then oc\<lparr>oc_buyer := True\<rparr>
      else if r = ''seller'' then oc\<lparr>oc_seller := True\<rparr>
      else oc)"

definition completeOnboarding ::
  "user_doc option \<Rightarrow> oid \<Rightarrow> string \<Rightarrow> onboarding_data option \<Rightarrow> store \<Rightarrow> error + store" where
  "completeOnboarding req_user uid r onboardingData s =
     (if map_option u_id req_user \<noteq> Some uid then Inl (AppError ''Unauthorized access'' 403)
      else case User_findById uid s of
        None \<Rightarrow> Inl (AppError ''User not found'' 404)
      | Some user \<Rightarrow>
          if r \<notin> set validRoles
          then Inl (AppError ''Invalid role. Only buyer and seller onboarding are handled here.'' 400)
          else case onboardingData of
            None \<Rightarrow> Inl TypeError
          | Some d \<Rightarrow>
              let user1 = (if r = ''buyer'' then completeBuyerOnboarding user d
                           else if r = ''seller'' then completeSellerOnboarding user d
                           else user);
                  user2 = user1\<lparr>onboardingCompleted :=
                            set_onboardingCompleted r (onboardingCompleted user1)\<rparr>;
                  currentRoleComplete = onboardingCompleted_at (onboardingCompleted user2) (role user2);
                  user3 = (if currentRoleComplete = Some True
                           then user2\<lparr>isProfileComplete := True\<rparr> else user2)
              in Inr (User_save user3 s))"

section \<open>Agent model and AgentController (controllers/agent.controllers.ts)\<close>

text \<open>
  The indexes that \<open>AgentSchema\<close> declares, each with the paths it covers and whether it is
  unique: \<open>{ office: 1, isActive: 1 }\<close> and \<open>{ specialties: 1 }\<close>.  No path of the schema
  carries a \<open>unique\<close> option.
\<close>

datatype agent_path = P_userId | P_office | P_isActive | P_specialties

record index_spec =
  ix_paths :: "agent_path list"
  ix_unique :: bool

definition AgentSchema_indexes :: "index_spec list" where
  "AgentSchema_indexes =
     [\<lparr>ix_paths = [P_office, P_isActive], ix_unique = False\<rparr>,
      \<lparr>ix_paths = [P_specialties], ix_unique = False\<rparr>]"

fun agent_key :: "agent_path \<Rightarrow> agent_doc \<Rightarrow> jsval" where
  "agent_key P_userId a = JId (userId a)"
| "agent_key P_office a = (case a_office a of None \<Rightarrow> JNull | Some obj \<Rightarrow> JId obj)"
| "agent_key P_isActive a = JBool (isActive a)"
| "agent_key P_specialties a = JArr (map JStr (specialties a))"

text \<open>The store rejects an insert that repeats the key of a stored document on a unique index.\<close>

definition duplicate_key :: "index_spec list \<Rightarrow> agent_doc list \<Rightarrow> agent_doc \<Rightarrow> bool" where
  "duplicate_key ixs docs a =
     list_ex (\<lambda>ix. ix_unique ix \<and>
        list_ex (\<lambda>d. list_all (\<lambda>p. agent_key p d = agent_key p a) (ix_paths ix)) docs) ixs"

text \<open>Mongoose's \<open>required\<close> validator on a String path rejects the empty string too.\<close>

definition required_str :: "string option \<Rightarrow> bool" where
  "required_str x = (case x of None \<Rightarrow> False | Some v \<Rightarrow> v \<noteq> [])"

text \<open>
  The \<open>required\<close> validators of \<open>AgentSchema\<close> (\<open>userId\<close> is always present here), run by
  \<open>Agent.create\<close> and by \<open>agent.save()\<close>.
\<close>

definition Agent_validate :: "agent_doc \<Rightarrow> bool" where
  "Agent_validate a = (required_str (bio a) \<and> required_str (licenseNumber a) \<and> a_office a \<noteq> None)"

definition Agent_save :: "agent_doc \<Rightarrow> store \<Rightarrow> error + store" where
  "Agent_save a s = (if \<not> Agent_validate a then Inl ValidationError else Inr (Agent_replace a s))"

record apply_body =
  b_bio :: "string option"
  b_licenseNumber :: "string option"
  b_licenseState :: "string option"
  b_licenseExpiration :: "string option"
  b_yearsExperience :: "int option"
  b_specialties :: "string list option"
  b_languages :: "string list option"
  b_office :: "oid option"
  b_socialMedia :: "(string \<times> jsval) list"

definition Agent_create :: "oid \<Rightarrow> apply_body \<Rightarrow> bool \<Rightarrow> store \<Rightarrow> error + agent_doc \<times> store" where
  "Agent_create uid b active s =
     (let a = \<lparr>a_id = next_id s, userId = uid, bio = b_bio b,
               licenseNumber = b_licenseNumber b, licenseState = b_licenseState b,
               licenseExpiration = b_licenseExpiration b,
               yearsExperience = (case b_yearsExperience b of None \<Rightarrow> 0 | Some y \<Rightarrow> y),
               specialties = (case b_specialties b of None \<Rightarrow> [] | Some l \<Rightarrow> l),
               languages = (case b_languages b of None \<Rightarrow> [] | Some l \<Rightarrow> l),
               a_office = b_office b, socialMedia = b_socialMedia b, isActive = active\<rparr>
      in if \<not> Agent_validate a then Inl ValidationError
         else if duplicate_key AgentSchema_indexes (agents s) a then Inl DuplicateKey
         else Inr (a, s\<lparr>agents := agents s @ [a], next_id := Suc (next_id s)\<rparr>))"

text \<open>\<open>AgentController.apply\<close> (\<open>apply\<close> is a keyword of the proof language).\<close>

definition apply_agent :: "user_doc option \<Rightarrow> apply_body \<Rightarrow> store \<Rightarrow> error + agent_doc \<times> store" where
  "apply_agent req_user b s =
     (case map_option u_id req_user of
        None \<Rightarrow> Inl (AppError ''Unauthorized access'' 403)
      | Some uid \<Rightarrow>
         (case User_findById uid s of
            None \<Rightarrow> Inl (AppError ''User not found'' 404)
          | Some user \<Rightarrow>
              if agentVerificationStatus user = VVerified
              then Inl (AppError ''You are already a verified agent'' 400)
              else (case Agent_findOne_userId uid s of
                  Some existingAgent \<Rightarrow> Inl (AppError ''Agent application already submitted'' 400)
                | None \<Rightarrow>
                   (case Agent_create uid b False s of
                      Inl e \<Rightarrow> Inl e
                    | Inr (agent, s1) \<Rightarrow>
                        Inr (agent, User_save (user\<lparr>agentVerificationStatus := VPending,
                                                    agentId := Some (a_id agent)\<rparr>) s1)))))"

text \<open>\<open>User.findByIdAndUpdate(id, { agentVerificationStatus: status })\<close>.\<close>

definition User_findByIdAndUpdate_status :: "oid \<Rightarrow> verification \<Rightarrow> store \<Rightarrow> store" where
  "User_findByIdAndUpdate_status i st s =
     s\<lparr>users := map (\<lambda>x. if u_id x = i then x\<lparr>agentVerificationStatus := st\<rparr> else x) (users s)\<rparr>"

text \<open>
  \<open>AgentController.verifyAgent\<close>.  \<open>action\<close> is whatever JSON value the body carries.
  \<open>populate("userId")\<close> leaves null where the owning account is gone; the guard
  \<open>if (agent.userId)\<close> then skips the account update.
\<close>

definition verifyAgent :: "user_doc option \<Rightarrow> oid \<Rightarrow> jsval \<Rightarrow> store \<Rightarrow> error + store" where
  "verifyAgent req_user aid action s =
     (if map_option role req_user \<noteq> Some Admin then Inl (AppError ''Unauthorized access'' 403)
      else case Agent_findById aid s of
        None \<Rightarrow> Inl (AppError ''Agent not found'' 404)
      | Some agent \<Rightarrow>
          let new_status = (if action = JStr ''approve'' then VVerified else VRejected)
          in (case Agent_save (agent\<lparr>isActive := (action = JStr ''approve'')\<rparr>) s of
                Inl e \<Rightarrow> Inl e
              | Inr s1 \<Rightarrow>
                 (case User_findById (userId agent) s1 of
                    None \<Rightarrow> Inr s1
                  | Some owner \<Rightarrow>
                      Inr (User_findByIdAndUpdate_status (u_id owner) new_status s1))))"

section \<open>UserController.addSavedSearch (controllers/user.controllers.ts)\<close>

text \<open>
  \<open>name\<close> and \<open>filters\<close> are \<open>None\<close> when absent or null; \<open>emailAlerts\<close> and \<open>frequency\<close>
  default to false and "weekly".  The sub-schema restricts \<open>frequency\<close> to three values.
\<close>

definition addSavedSearch ::
  "user_doc option \<Rightarrow> oid \<Rightarrow> string option \<Rightarrow> (string \<times> jsval) list option \<Rightarrow> bool option
     \<Rightarrow> string option \<Rightarrow> store \<Rightarrow> error + store" where
  "addSavedSearch req_user uid name filters emailAlerts frequency s =
     (if map_option u_id req_user \<noteq> Some uid then Inl (AppError ''Insufficient permissions'' 403)
      else if \<not> required_str name \<or> filters = None
        then Inl (AppError ''Valid name and filters are required'' 400)
      else case User_findById uid s of
        None \<Rightarrow> Inl (AppError ''User not found'' 404)
      | Some user \<Rightarrow>
          if 10 \<le> length (savedSearches user)
          then Inl (AppError ''Maximum saved searches limit reached (10)'' 400)
          else let savedSearch =
                 \<lparr>ss_name = (case name of None \<Rightarrow> [] | Some n \<Rightarrow> n),
                  ss_filters = (case filters of None \<Rightarrow> [] | Some f \<Rightarrow> f),
                  ss_emailAlerts = (case emailAlerts of None \<Rightarrow> False | Some e \<Rightarrow> e),
                  ss_frequency = (case frequency of None \<Rightarrow> ''weekly'' | Some f \<Rightarrow> f)\<rparr>
               in if ss_frequency savedSearch \<notin> set [''daily'', ''weekly'', ''monthly'']
                  then Inl ValidationError
                  else Inr (User_save (user\<lparr>savedSearches := savedSearches user @ [savedSearch]\<rparr>) s))"

section \<open>PropertyController (controllers/property.controllers.ts)\<close>

text \<open>
  \<open>user.office\<close>, as the property controller reads it from \<open>req.user\<close>.  \<open>req.user\<close> is the
  User document loaded by \<open>authenticateToken\<close>; \<open>UserSchema\<close> declares the path \<open>officeId\<close>
  and no path \<open>office\<close>, and nothing assigns one, so the read yields \<open>undefined\<close>.
\<close>

definition office :: "user_doc \<Rightarrow> oid option" where
  "office user = None"

text \<open>
  \<open>a?.toString() === b?.toString()\<close> on two optional ObjectIds is equality of the options:
  two absent values compare equal.
\<close>

definition canManageProperty :: "user_doc \<Rightarrow> property_doc \<Rightarrow> bool" where
  "canManageProperty user property =
     (if role user = Admin then True
      else if role user = Manager \<and> office user = listingOffice property then True
      else if role user = Agent \<and> Some (u_id user) = listingAgent property then True
      else False)"

text \<open>\<open>property.save()\<close> runs the schema's validators: both listing references are required.\<close>

definition Property_save :: "property_doc \<Rightarrow> store \<Rightarrow> error + store" where
  "Property_save p s =
     (if listingAgent p = None \<or> listingOffice p = None then Inl ValidationError
      else Inr (s\<lparr>properties := map (\<lambda>x. if p_id x = p_id p then p else x) (properties s)\<rparr>))"

definition deleteProperty :: "user_doc option \<Rightarrow> oid \<Rightarrow> store \<Rightarrow> error + store" where
  "deleteProperty req_user pid s =
     (case req_user of
        None \<Rightarrow> Inl (AppError ''Unauthorized'' 401)
      | Some user \<Rightarrow>
         (case Property_findById pid s of
            None \<Rightarrow> Inl (AppError ''Property not found'' 404)
          | Some property \<Rightarrow>
              if \<not> canManageProperty user property then Inl (AppError ''Access denied'' 403)
              else Property_save (property\<lparr>status := OffMarket\<rparr>) s))"

text \<open>\<open>officeId || user.office\<close>: the body's office when given, else \<open>user.office\<close>.\<close>

definition assignProperty ::
  "user_doc option \<Rightarrow> oid \<Rightarrow> oid option \<Rightarrow> oid option \<Rightarrow> store \<Rightarrow> error + store" where
  "assignProperty req_user pid agentId_arg officeId_arg s =
     (case req_user of
        None \<Rightarrow> Inl (AppError ''Unauthorized'' 401)
      | Some user \<Rightarrow>
          if role user \<notin> set [Admin, Manager] then Inl (AppError ''Access denied'' 403)
          else (case Property_findById pid s of
              None \<Rightarrow> Inl (AppError ''Property not found'' 404)
            | Some property \<Rightarrow>
                Property_save (property\<lparr>listingAgent := agentId_arg,
                    listingOffice := (case officeId_arg of Some obj \<Rightarrow> Some obj | None \<Rightarrow> office user),
                    status := Active\<rparr>) s))"

section \<open>Office model and OfficeController.createOffice\<close>

text \<open>
  A multi-document transaction: the session works on its own copy of the store, which
  \<open>commitTransaction\<close> publishes and \<open>abortTransaction\<close> drops.  An operation given the
  session reads and writes the working copy; one without it acts on the committed store.
\<close>

record dbstate =
  committed :: store
  working :: store

definition startTransaction :: "store \<Rightarrow> dbstate" where
  "startTransaction s = \<lparr>committed = s, working = s\<rparr>"

definition commitTransaction :: "dbstate \<Rightarrow> dbstate" where
  "commitTransaction d = d\<lparr>committed := working d\<rparr>"

definition abortTransaction :: "dbstate \<Rightarrow> dbstate" where
  "abortTransaction d = d\<lparr>working := committed d\<rparr>"

definition db_read :: "bool \<Rightarrow> dbstate \<Rightarrow> store" where
  "db_read in_session d = (if in_session then working d else committed d)"

definition db_write :: "bool \<Rightarrow> (store \<Rightarrow> store) \<Rightarrow> dbstate \<Rightarrow> dbstate" where
  "db_write in_session f d =
     (if in_session then d\<lparr>working := f (working d)\<rparr> else d\<lparr>committed := f (committed d)\<rparr>)"

text \<open>
  \<open>officeData\<close>, the \<open>Partial<IOffice>\<close> that the controller builds: the copied body keys
  by name, and the relationship paths it assigns itself.
\<close>

record office_data =
  od_fields :: "(string \<times> jsval) list"
  od_manager :: "oid option"
  od_agents :: "oid list"
  od_franchiseId :: "string option"
  od_totalAgents :: nat

fun js_get :: "jsval \<Rightarrow> string \<Rightarrow> jsval" where
  "js_get (JObj kvs) k = (case map_of kvs k of None \<Rightarrow> JUndefined | Some v \<Rightarrow> v)"
| "js_get v k = JUndefined"

definition path_value :: "(string \<times> jsval) list \<Rightarrow> string list \<Rightarrow> jsval" where
  "path_value kvs path = foldl js_get (JObj kvs) path"

definition present :: "jsval \<Rightarrow> bool" where
  "present v = (v \<noteq> JUndefined \<and> v \<noteq> JNull \<and> v \<noteq> JStr [])"

text \<open>
  The paths that \<open>OfficeSchema\<close> (models/Office.ts) marks \<open>required\<close>, apart from
  \<open>franchiseId\<close> and \<open>manager\<close>, which \<open>office_data\<close> holds typed.  The schema's other
  validators (enum, maxlength, coordinates) can only reject more documents.
\<close>

definition Office_required_paths :: "string list list" where
  "Office_required_paths =
     [[''name''], [''address''], [''address'', ''street''], [''address'', ''city''],
      [''address'', ''state''], [''address'', ''zipCode''], [''phone''], [''email''],
      [''description''],
      [''contact'', ''primaryContact'', ''name''], [''contact'', ''primaryContact'', ''title''],
      [''contact'', ''primaryContact'', ''phone''], [''contact'', ''primaryContact'', ''email''],
      [''establishedDate'']]"

definition Office_validate :: "office_data \<Rightarrow> bool" where
  "Office_validate od =
     (required_str (od_franchiseId od) \<and> od_manager od \<noteq> None \<and>
      list_all (\<lambda>p. present (path_value (od_fields od) p)) Office_required_paths)"

text \<open>
  \<open>Office.findOne({ franchiseId })\<close>; franchise ids are taken in the upper-case form in
  which the schema's setter stores and queries them.
\<close>

definition Office_findOne_franchiseId :: "string \<Rightarrow> store \<Rightarrow> office_doc option" where
  "Office_findOne_franchiseId f s = find (\<lambda>x. o_franchiseId x = f) (offices s)"

text \<open>
  \<open>Office.create([officeData], { session })\<close>: validation, the unique index on
  \<open>franchiseId\<close>, then the insert.  The pre-save hook sets \<open>statistics.totalAgents\<close> to the
  length of \<open>agents\<close>.
\<close>

definition Office_create ::
  "bool \<Rightarrow> office_data \<Rightarrow> dbstate \<Rightarrow> (error + office_doc) \<times> dbstate" where
  "Office_create in_session od d =
     (if \<not> Office_validate od then (Inl ValidationError, d)
      else case (od_franchiseId od, od_manager od) of
        (Some f, Some m) \<Rightarrow>
          if Office_findOne_franchiseId f (db_read in_session d) \<noteq> None then (Inl DuplicateKey, d)
          else
            let created = \<lparr>o_id = next_id (db_read in_session d), o_franchiseId = f, o_manager = m,
                           o_agents = od_agents od, o_totalAgents = length (od_agents od),
                           o_fields = od_fields od\<rparr>
            in (Inr created,
                db_write in_session
                  (\<lambda>s. s\<lparr>offices := offices s @ [created], next_id := Suc (next_id s)\<rparr>) d)
      | _ \<Rightarrow> (Inl ValidationError, d))"

definition allowedFields :: "string list" where
  "allowedFields =
     [''name'', ''description'', ''address'', ''phone'', ''email'', ''website'', ''settings'',
      ''images'', ''specialties'', ''services'', ''languages'', ''officeHours'', ''socialMedia'',
      ''contact'', ''metadata'', ''marketAreas'', ''awards'', ''certifications'', ''isActive'',
      ''isPremium'']"

text \<open>
  \<open>for (const key of allowedFields) if (req.body[key] !== undefined) officeData[key] = req.body[key]\<close>
\<close>

definition copy_allowed :: "(string \<times> jsval) list \<Rightarrow> (string \<times> jsval) list" where
  "copy_allowed body =
     concat (map (\<lambda>key. case map_of body key of
                           None \<Rightarrow> []
                         | Some v \<Rightarrow> if v = JUndefined then [] else [(key, v)]) allowedFields)"

text \<open>The request: \<open>req.body.manager\<close>, \<open>req.body.franchiseId\<close>, and every key of \<open>req.body\<close>.\<close>

record office_request =
  r_manager :: "oid option"
  r_franchiseId :: "string option"
  r_body :: "(string \<times> jsval) list"

text \<open>
  The \<open>try\<close> block of \<open>createOffice\<close> up to the commit; every store access carries the
  session.  \<open>managerAgent.save({ session })\<close> is the validation followed by the write.
\<close>

definition createOffice_try ::
  "user_doc option \<Rightarrow> office_request \<Rightarrow> dbstate \<Rightarrow> (error + office_doc) \<times> dbstate" where
  "createOffice_try req_user req d =
     (case map_option u_id req_user of
        None \<Rightarrow> (Inl (AppError ''Unauthorized'' 401), d)
      | Some uid \<Rightarrow>
     (case r_manager req of
        None \<Rightarrow> (Inl (AppError ''Manager (agent id) is required'' 400), d)
      | Some managerId \<Rightarrow>
     (case r_franchiseId req of
        None \<Rightarrow> (Inl (AppError ''Franchise ID is required'' 400), d)
      | Some franchiseId \<Rightarrow>
     if franchiseId = [] then (Inl (AppError ''Franchise ID is required'' 400), d)
     else
     (case User_findById uid (db_read True d) of
        None \<Rightarrow> (Inl (AppError ''User not found'' 404), d)
      | Some currentUser \<Rightarrow>
     if role currentUser \<notin> set [Admin, Manager]
     then (Inl (AppError ''Only admin or manager can create offices'' 403), d)
     else
     (case Office_findOne_franchiseId franchiseId (db_read True d) of
        Some existingOffice \<Rightarrow> (Inl (AppError ''Franchise ID already in use'' 400), d)
      | None \<Rightarrow>
     (case Agent_findById managerId (db_read True d) of
        None \<Rightarrow> (Inl (AppError ''Manager agent not found'' 404), d)
      | Some managerAgent \<Rightarrow>
     (case User_findOne_agentId (a_id managerAgent) (db_read True d) of
        None \<Rightarrow> (Inl (AppError ''Manager must be a verified agent'' 400), d)
      | Some managerUser \<Rightarrow>
     if agentVerificationStatus managerUser \<noteq> VVerified
     then (Inl (AppError ''Manager must be a verified agent'' 400), d)
     else
       let officeData = \<lparr>od_fields = copy_allowed (r_body req),
                          od_manager = Some (a_id managerAgent),
                          od_agents = [a_id managerAgent],
                          od_franchiseId = Some franchiseId,
                          od_totalAgents = 1\<rparr>
       in (case Office_create True officeData d of
             (Inl e, d1) \<Rightarrow> (Inl e, d1)
           | (Inr createdOffice, d1) \<Rightarrow>
               let managerAgent1 = managerAgent\<lparr>a_office := Some (o_id createdOffice)\<rparr>
               in if \<not> Agent_validate managerAgent1 then (Inl ValidationError, d1)
                  else
                    let d2 = db_write True (Agent_replace managerAgent1) d1;
                        managerUser1 = (if role managerUser \<noteq> Manager
                                        then managerUser\<lparr>role := Manager\<rparr> else managerUser);
                        d3 = db_write True
                               (User_save (managerUser1\<lparr>officeId := Some (o_id createdOffice)\<rparr>)) d2
                    in (Inr createdOffice, d3)))))))))"

text \<open>
  \<open>createOffice\<close>: the transaction is committed when the \<open>try\<close> block ends normally and
  aborted in the \<open>catch\<close>.  The result is the outcome and the committed store.
\<close>

definition createOffice ::
  "user_doc option \<Rightarrow> office_request \<Rightarrow> store \<Rightarrow> (error + office_doc) \<times> store" where
  "createOffice req_user req s =
     (case createOffice_try req_user req (startTransaction s) of
        (Inr createdOffice, d) \<Rightarrow> (Inr createdOffice, committed (commitTransaction d))
      | (Inl e, d) \<Rightarrow> (Inl e, committed (abortTransaction d)))"

section \<open>Concrete documents used by the closed theorems\<close>

text \<open>An account as registration leaves it: the schema's defaults and the given role.\<close>

definition default_user :: "oid \<Rightarrow> role \<Rightarrow> user_doc" where
  "default_user i r =
     \<lparr>u_id = i, role = r,
      onboardingCompleted = \<lparr>oc_buyer = False, oc_seller = False, oc_agent = False\<rparr>,
      officeId = None,
      user_preferences = \<lparr>propertyTypes = [], priceRange = [0, 1000000], locations = [],
                          notifications = True\<rparr>,
      savedSearches = [], agentId = None, agentVerificationStatus = VNone,
      isProfileComplete = False\<rparr>"

definition store_of :: "user_doc list \<Rightarrow> agent_doc list \<Rightarrow> property_doc list \<Rightarrow> store" where
  "store_of us as ps = \<lparr>users = us, agents = as, offices = [], properties = ps, next_id = 100\<rparr>"

definition no_data :: onboarding_data where
  "no_data = \<lparr>d_propertyTypes = None, d_priceRange = None, d_locations = None,
              d_notifications = None, d_bedrooms = None, d_bathrooms = None,
              d_emailAlerts = None, d_hasProperty = None\<rparr>"

text \<open>Account 1 after its buyer onboarding, and after it then selected the seller role.\<close>

definition buyer_done :: user_doc where
  "buyer_done = (default_user 1 Buyer)
     \<lparr>onboardingCompleted := \<lparr>oc_buyer = True, oc_seller = False, oc_agent = False\<rparr>,
      isProfileComplete := True\<rparr>"

definition buyer_turned_seller :: user_doc where
  "buyer_turned_seller = buyer_done\<lparr>role := Seller\<rparr>"

text \<open>A complete application, and the Agent Profile 7 that account 2 owns.\<close>

definition license_data :: apply_body where
  "license_data = \<lparr>b_bio = Some ''Ten years in residential sales'',
                    b_licenseNumber = Some ''LIC-4411'', b_licenseState = Some ''CA'',
                    b_licenseExpiration = None, b_yearsExperience = Some 10,
                    b_specialties = None, b_languages = None, b_office = Some 50,
                    b_socialMedia = []\<rparr>"

definition profile7 :: "bool \<Rightarrow> agent_doc" where
  "profile7 active =
     \<lparr>a_id = 7, userId = 2, bio = Some ''Ten years in residential sales'',
      licenseNumber = Some ''LIC-4411'', licenseState = Some ''CA'', licenseExpiration = None,
      yearsExperience = 10, specialties = [], languages = [], a_office = Some 50,
      socialMedia = [], isActive = active\<rparr>"

definition applicant :: "verification \<Rightarrow> user_doc" where
  "applicant st = (default_user 2 Agent)\<lparr>agentId := Some 7, agentVerificationStatus := st\<rparr>"

definition admin9 :: user_doc where
  "admin9 = default_user 9 Admin"

text \<open>The manager of office 50, an agent account, and properties listed with them.\<close>

definition manager3 :: user_doc where
  "manager3 = (default_user 3 Manager)
     \<lparr>officeId := Some 50, agentId := Some 8, agentVerificationStatus := VVerified\<rparr>"

definition listed :: "oid \<Rightarrow> oid \<Rightarrow> property_doc" where
  "listed a obj = \<lparr>p_id = 20, status = Pending, listingAgent = Some a, listingOffice = Some obj,
                   p_seller = None\<rparr>"

text \<open>A request to create an office that carries every path the Office schema requires.\<close>

definition office_body :: "(string \<times> jsval) list" where
  "office_body =
     [(''name'', JStr ''Downtown''), (''description'', JStr ''City office''),
      (''address'', JObj [(''street'', JStr ''1 Main St''), (''city'', JStr ''Austin''),
                          (''state'', JStr ''TX''), (''zipCode'', JStr ''73301'')]),
      (''phone'', JStr ''555-0100''), (''email'', JStr ''office@example.com''),
      (''contact'', JObj [(''primaryContact'',
          JObj [(''name'', JStr ''Pat''), (''title'', JStr ''Broker''),
                (''phone'', JStr ''555-0101''), (''email'', JStr ''pat@example.com'')])]),
      (''establishedDate'', JStr ''2020-01-01'')]"

definition office_request_100 :: office_request where
  "office_request_100 = \<lparr>r_manager = Some 7, r_franchiseId = Some ''RMX-100'',
                          r_body = office_body\<rparr>"

text \<open>Ten saved searches, and buyer data naming a property type.\<close>

definition a_search :: saved_search where
  "a_search = \<lparr>ss_name = ''Lofts'', ss_filters = [], ss_emailAlerts = False,
                ss_frequency = ''weekly''\<rparr>"

definition full_account :: user_doc where
  "full_account = (default_user 1 Buyer)\<lparr>savedSearches := replicate 10 a_search\<rparr>"

definition house_data :: onboarding_data where
  "house_data = no_data\<lparr>d_propertyTypes := Some [''house'']\<rparr>"

text \<open>Whether a list of index declarations has a unique index on \<open>userId\<close> alone.\<close>

definition unique_on_userId :: "index_spec list \<Rightarrow> bool" where
  "unique_on_userId ixs = list_ex (\<lambda>ix. ix_unique ix \<and> ix_paths ix = [P_userId]) ixs"

section \<open>Lookups after a save\<close>

lemma find_key_eq: "find (\<lambda>x. key x = i) xs = Some u \<Longrightarrow> key u = i"
  by (induction xs) (auto split: if_splits)

lemma find_map_replace:
  "find (\<lambda>x. key x = i) xs = Some u \<Longrightarrow> key u' = i \<Longrightarrow>
   find (\<lambda>x. key x = i) (map (\<lambda>x. if key x = i then u' else x) xs) = Some u'"
  by (induction xs) (auto split: if_splits)

lemma find_map_update:
  "find (\<lambda>x. key x = i) xs = Some u \<Longrightarrow> (\<And>x. key (f x) = key x) \<Longrightarrow>
   find (\<lambda>x. key x = i) (map (\<lambda>x. if key x = i then f x else x) xs) = Some (f u)"
  by (induction xs) (auto split: if_splits)

lemma User_findById_id: "User_findById i s = Some u \<Longrightarrow> u_id u = i"
  unfolding User_findById_def by (rule find_key_eq)

lemma User_findById_save:
  "User_findById i s = Some u \<Longrightarrow> u_id u' = i \<Longrightarrow> User_findById i (User_save u' s) = Some u'"
  unfolding User_findById_def User_save_def by (simp add: find_map_replace)

section \<open>Onboarding completion and the primary role\<close>

lemma completeBuyerOnboarding_keeps:
  "u_id (completeBuyerOnboarding u d) = u_id u"
  "role (completeBuyerOnboarding u d) = role u"
  "onboardingCompleted (completeBuyerOnboarding u d) = onboardingCompleted u"
  "isProfileComplete (completeBuyerOnboarding u d) = isProfileComplete u"
  by (simp_all add: completeBuyerOnboarding_def Let_def)

lemma completeSellerOnboarding_keeps:
  "u_id (completeSellerOnboarding u d) = u_id u"
  "role (completeSellerOnboarding u d) = role u"
  "onboardingCompleted (completeSellerOnboarding u d) = onboardingCompleted u"
  "isProfileComplete (completeSellerOnboarding u d) = isProfileComplete u"
  by (simp_all add: completeSellerOnboarding_def)

text \<open>
  C1, as the code has it.  After a successful \<open>completeOnboarding\<close> the flag of the
  completed role is set, and \<open>isProfileComplete\<close> is true when the primary role's flag is
  true and otherwise keeps the value it had: the flag is only ever raised.  After a
  successful \<open>selectRole\<close> the primary role is the selected one, and \<open>isProfileComplete\<close> and
  the onboarding flags are what they were before the call.
\<close>

theorem profile_complete_is_latched:
  "(completeOnboarding req_user uid r onboardingData s = Inr s' \<longrightarrow>
      (\<exists>u u'. User_findById uid s = Some u \<and> User_findById uid s' = Some u' \<and>
         role u' = role u \<and>
         onboardingCompleted u' = set_onboardingCompleted r (onboardingCompleted u) \<and>
         isProfileComplete u' =
           (isProfileComplete u \<or>
            onboardingCompleted_at (onboardingCompleted u') (role u') = Some True))) \<and>
   (selectRole req_user2 uid2 r2 s2 = Inr s2' \<longrightarrow>
      (\<exists>u u'. User_findById uid2 s2 = Some u \<and> User_findById uid2 s2' = Some u' \<and>
         selectable_role r2 = Some (role u') \<and>
         onboardingCompleted u' = onboardingCompleted u \<and>
         isProfileComplete u' = isProfileComplete u))"
proof (intro conjI impI)
  assume a: "completeOnboarding req_user uid r onboardingData s = Inr s'"
  then obtain u d where u: "User_findById uid s = Some u" and d: "onboardingData = Some d"
    by (auto simp: completeOnboarding_def split: if_splits option.splits)
  have uid: "u_id u = uid" using u by (rule User_findById_id)
  define u1 where "u1 = (if r = ''buyer'' then completeBuyerOnboarding u d
                          else if r = ''seller'' then completeSellerOnboarding u d else u)"
  define u2 where "u2 = u1\<lparr>onboardingCompleted := set_onboardingCompleted r (onboardingCompleted u1)\<rparr>"
  define u3 where "u3 = (if onboardingCompleted_at (onboardingCompleted u2) (role u2) = Some True
                          then u2\<lparr>isProfileComplete := True\<rparr> else u2)"
  have s': "s' = User_save u3 s"
    using a u d by (auto simp: completeOnboarding_def Let_def u1_def u2_def u3_def split: if_splits)
  have k1: "u_id u1 = uid" "role u1 = role u" "onboardingCompleted u1 = onboardingCompleted u"
    "isProfileComplete u1 = isProfileComplete u"
    by (simp_all add: u1_def completeBuyerOnboarding_keeps completeSellerOnboarding_keeps uid)
  have k3: "u_id u3 = uid" "role u3 = role u"
    "onboardingCompleted u3 = set_onboardingCompleted r (onboardingCompleted u)"
    by (simp_all add: u3_def u2_def k1)
  have p3: "isProfileComplete u3 =
      (isProfileComplete u \<or> onboardingCompleted_at (onboardingCompleted u3) (role u3) = Some True)"
    by (simp add: u3_def u2_def k1)
  have "User_findById uid s' = Some u3"
    unfolding s' using u k3(1) by (rule User_findById_save)
  with u k3 p3 show "\<exists>u u'. User_findById uid s = Some u \<and> User_findById uid s' = Some u' \<and>
         role u' = role u \<and>
         onboardingCompleted u' = set_onboardingCompleted r (onboardingCompleted u) \<and>
         isProfileComplete u' =
           (isProfileComplete u \<or>
            onboardingCompleted_at (onboardingCompleted u') (role u') = Some True)"
    by blast
next
  assume a: "selectRole req_user2 uid2 r2 s2 = Inr s2'"
  then obtain nr u where nr: "selectable_role r2 = Some nr" and u: "User_findById uid2 s2 = Some u"
    by (auto simp: selectRole_def split: if_splits option.splits)
  have uid: "u_id u = uid2" using u by (rule User_findById_id)
  define u2 where "u2 = (if nr = Agent then u\<lparr>role := nr, agentVerificationStatus := VNone\<rparr>
                          else u\<lparr>role := nr\<rparr>)"
  have s': "s2' = User_save u2 s2"
    using a nr u by (auto simp: selectRole_def Let_def u2_def split: if_splits)
  have k: "u_id u2 = uid2" "role u2 = nr" "onboardingCompleted u2 = onboardingCompleted u"
    "isProfileComplete u2 = isProfileComplete u"
    by (simp_all add: u2_def uid)
  have "User_findById uid2 s2' = Some u2"
    unfolding s' using u k(1) by (rule User_findById_save)
  with u k nr show "\<exists>u u'. User_findById uid2 s2 = Some u \<and> User_findById uid2 s2' = Some u' \<and>
         selectable_role r2 = Some (role u') \<and>
         onboardingCompleted u' = onboardingCompleted u \<and>
         isProfileComplete u' = isProfileComplete u"
    by auto
qed

lemma buyer_onboarding_run:
  "completeOnboarding (Some (default_user 1 Buyer)) 1 ''buyer'' (Some no_data)
       (store_of [default_user 1 Buyer] [] []) = Inr (store_of [buyer_done] [] [])"
  by (simp add: completeOnboarding_def store_of_def
      default_user_def buyer_done_def no_data_def validRoles_def
      User_findById_def User_save_def completeBuyerOnboarding_def nonempty_opt_def
      set_onboardingCompleted_def Let_def)

lemma seller_selection_run:
  "selectRole (Some buyer_done) 1 ''seller'' (store_of [buyer_done] [] [])
     = Inr (store_of [buyer_turned_seller] [] [])"
  by (simp add: selectRole_def selectable_role_def store_of_def
      default_user_def buyer_done_def buyer_turned_seller_def
      User_findById_def User_save_def Let_def)

theorem profile_complete_is_latched_witness:
  "completeOnboarding (Some (default_user 1 Buyer)) 1 ''buyer'' (Some no_data)
       (store_of [default_user 1 Buyer] [] []) = Inr (store_of [buyer_done] [] []) \<and>
   (\<exists>u u'. User_findById 1 (store_of [default_user 1 Buyer] [] []) = Some u \<and>
         User_findById 1 (store_of [buyer_done] [] []) = Some u' \<and>
         role u' = role u \<and>
         onboardingCompleted u' = set_onboardingCompleted ''buyer'' (onboardingCompleted u) \<and>
         isProfileComplete u' =
           (isProfileComplete u \<or>
            onboardingCompleted_at (onboardingCompleted u') (role u') = Some True)) \<and>
   selectRole (Some buyer_done) 1 ''seller'' (store_of [buyer_done] [] [])
     = Inr (store_of [buyer_turned_seller] [] []) \<and>
   (\<exists>u u'. User_findById 1 (store_of [buyer_done] [] []) = Some u \<and>
         User_findById 1 (store_of [buyer_turned_seller] [] []) = Some u' \<and>
         selectable_role ''seller'' = Some (role u') \<and>
         onboardingCompleted u' = onboardingCompleted u \<and>
         isProfileComplete u' = isProfileComplete u)"
  using profile_complete_is_latched
    [of "Some (default_user 1 Buyer)" 1 "''buyer''" "Some no_data"
        "store_of [default_user 1 Buyer] [] []" "store_of [buyer_done] [] []"
        "Some buyer_done" 1 "''seller''" "store_of [buyer_done] [] []"
        "store_of [buyer_turned_seller] [] []"]
    buyer_onboarding_run seller_selection_run
  by blast

text \<open>
  C1 as stated fails: account 1 completes its buyer onboarding as a buyer, then selects
  the seller role.  After that \<open>selectRole\<close> call \<open>isProfileComplete\<close> is still true while
  \<open>onboardingCompleted[seller]\<close> is false.
\<close>

theorem select_role_counterexample:
  "completeOnboarding (Some (default_user 1 Buyer)) 1 ''buyer'' (Some no_data)
       (store_of [default_user 1 Buyer] [] []) = Inr (store_of [buyer_done] [] []) \<and>
   selectRole (Some buyer_done) 1 ''seller'' (store_of [buyer_done] [] [])
     = Inr (store_of [buyer_turned_seller] [] []) \<and>
   isProfileComplete buyer_turned_seller = True \<and>
   onboardingCompleted_at (onboardingCompleted buyer_turned_seller) (role buyer_turned_seller)
     = Some False"
  by (simp add: completeOnboarding_def selectRole_def selectable_role_def store_of_def
      default_user_def buyer_done_def buyer_turned_seller_def no_data_def validRoles_def
      User_findById_def User_save_def completeBuyerOnboarding_def nonempty_opt_def
      set_onboardingCompleted_def Let_def)

section \<open>Agent application and verification\<close>

lemma Agent_findById_save:
  "Agent_findById i s = Some a \<Longrightarrow> a_id a' = i \<Longrightarrow>
   Agent_findById i (Agent_replace a' s) = Some a'"
  unfolding Agent_findById_def Agent_replace_def by (simp add: find_map_replace)

lemma Agent_findById_id: "Agent_findById i s = Some a \<Longrightarrow> a_id a = i"
  unfolding Agent_findById_def by (rule find_key_eq)

lemma no_unique_agent_index: "duplicate_key AgentSchema_indexes docs a = False"
  by (simp add: duplicate_key_def AgentSchema_indexes_def)

lemma Agent_create_valid:
  assumes "required_str (b_bio b)" "required_str (b_licenseNumber b)" "b_office b \<noteq> None"
  shows "\<exists>a. Agent_create uid b active s
            = Inr (a, s\<lparr>agents := agents s @ [a], next_id := Suc (next_id s)\<rparr>) \<and>
             userId a = uid \<and> a_id a = next_id s \<and> isActive a = active"
  using assms by (simp add: Agent_create_def Agent_validate_def Let_def no_unique_agent_index)

lemma Agent_create_result:
  "Agent_create uid b active s = Inr (a, s1) \<Longrightarrow>
     s1 = s\<lparr>agents := agents s @ [a], next_id := Suc (next_id s)\<rparr> \<and> userId a = uid \<and>
     isActive a = active"
  by (auto simp: Agent_create_def Let_def split: if_splits)

text \<open>
  C2, as the code has it.  (1) An account whose status is rejected and that owns no Agent
  Profile applies with complete license data: the call succeeds and the account is
  pending.  (2) An account whose status is rejected and that still owns an Agent Profile
  (as after \<open>verifyAgent\<close>, which keeps the profile) is refused with the 400
  "Agent application already submitted".  (3) A verified account is always refused, with
  the 400 "You are already a verified agent".
\<close>

theorem reapply_needs_no_profile:
  "(User_findById (u_id ru) s = Some u \<and> agentVerificationStatus u = VRejected \<and>
    Agent_findOne_userId (u_id ru) s = None \<and>
    required_str (b_bio b) \<and> required_str (b_licenseNumber b) \<and> b_office b \<noteq> None \<longrightarrow>
      (\<exists>a s'. apply_agent (Some ru) b s = Inr (a, s') \<and>
         map_option agentVerificationStatus (User_findById (u_id ru) s') = Some VPending)) \<and>
   (User_findById (u_id ru2) s2 = Some u2 \<and> agentVerificationStatus u2 = VRejected \<and>
    Agent_findOne_userId (u_id ru2) s2 = Some a2 \<longrightarrow>
      apply_agent (Some ru2) b2 s2 = Inl (AppError ''Agent application already submitted'' 400)) \<and>
   (User_findById (u_id ru3) s3 = Some u3 \<and> agentVerificationStatus u3 = VVerified \<longrightarrow>
      apply_agent (Some ru3) b3 s3 = Inl (AppError ''You are already a verified agent'' 400))"
proof (intro conjI impI)
  assume h: "User_findById (u_id ru) s = Some u \<and> agentVerificationStatus u = VRejected \<and>
    Agent_findOne_userId (u_id ru) s = None \<and>
    required_str (b_bio b) \<and> required_str (b_licenseNumber b) \<and> b_office b \<noteq> None"
  then obtain a where a: "Agent_create (u_id ru) b False s
      = Inr (a, s\<lparr>agents := agents s @ [a], next_id := Suc (next_id s)\<rparr>)"
    using Agent_create_valid[of b "u_id ru" False s] by blast
  define s1 where "s1 = s\<lparr>agents := agents s @ [a], next_id := Suc (next_id s)\<rparr>"
  define u' where "u' = u\<lparr>agentVerificationStatus := VPending, agentId := Some (a_id a)\<rparr>"
  have uid: "u_id u = u_id ru" using h by (auto dest: User_findById_id)
  have run: "apply_agent (Some ru) b s = Inr (a, User_save u' s1)"
    using h a by (simp add: apply_agent_def s1_def u'_def)
  have "User_findById (u_id ru) s1 = Some u"
    using h by (simp add: User_findById_def s1_def)
  then have "User_findById (u_id ru) (User_save u' s1) = Some u'"
    by (rule User_findById_save) (simp add: u'_def uid)
  then have "map_option agentVerificationStatus (User_findById (u_id ru) (User_save u' s1))
      = Some VPending"
    by (simp add: u'_def)
  with run show "\<exists>a s'. apply_agent (Some ru) b s = Inr (a, s') \<and>
         map_option agentVerificationStatus (User_findById (u_id ru) s') = Some VPending"
    by blast
next
  assume "User_findById (u_id ru2) s2 = Some u2 \<and> agentVerificationStatus u2 = VRejected \<and>
    Agent_findOne_userId (u_id ru2) s2 = Some a2"
  then show "apply_agent (Some ru2) b2 s2 = Inl (AppError ''Agent application already submitted'' 400)"
    by (simp add: apply_agent_def)
next
  assume "User_findById (u_id ru3) s3 = Some u3 \<and> agentVerificationStatus u3 = VVerified"
  then show "apply_agent (Some ru3) b3 s3 = Inl (AppError ''You are already a verified agent'' 400)"
    by (simp add: apply_agent_def)
qed

theorem reapply_needs_no_profile_witness:
  "(\<exists>a s'. apply_agent (Some (applicant VRejected)) license_data
               (store_of [applicant VRejected] [] []) = Inr (a, s') \<and>
       map_option agentVerificationStatus (User_findById 2 s') = Some VPending) \<and>
   apply_agent (Some (applicant VRejected)) license_data
      (store_of [applicant VRejected] [profile7 False] [])
     = Inl (AppError ''Agent application already submitted'' 400) \<and>
   apply_agent (Some (applicant VVerified)) license_data
      (store_of [applicant VVerified] [profile7 True] [])
     = Inl (AppError ''You are already a verified agent'' 400)"
proof -
  have h1: "User_findById (u_id (applicant VRejected)) (store_of [applicant VRejected] [] [])
        = Some (applicant VRejected) \<and>
      agentVerificationStatus (applicant VRejected) = VRejected \<and>
      Agent_findOne_userId (u_id (applicant VRejected)) (store_of [applicant VRejected] [] []) = None \<and>
      required_str (b_bio license_data) \<and> required_str (b_licenseNumber license_data) \<and>
      b_office license_data \<noteq> None"
    by (simp add: applicant_def default_user_def store_of_def User_findById_def
        Agent_findOne_userId_def license_data_def required_str_def)
  have h2: "User_findById (u_id (applicant VRejected))
        (store_of [applicant VRejected] [profile7 False] []) = Some (applicant VRejected) \<and>
      agentVerificationStatus (applicant VRejected) = VRejected \<and>
      Agent_findOne_userId (u_id (applicant VRejected))
        (store_of [applicant VRejected] [profile7 False] []) = Some (profile7 False)"
    by (simp add: applicant_def default_user_def store_of_def User_findById_def
        Agent_findOne_userId_def profile7_def)
  have h3: "User_findById (u_id (applicant VVerified))
        (store_of [applicant VVerified] [profile7 True] []) = Some (applicant VVerified) \<and>
      agentVerificationStatus (applicant VVerified) = VVerified"
    by (simp add: applicant_def default_user_def store_of_def User_findById_def)
  have id2: "u_id (applicant VRejected) = 2"
    by (simp add: applicant_def default_user_def)
  show ?thesis
    using reapply_needs_no_profile
      [of "applicant VRejected" "store_of [applicant VRejected] [] []" "applicant VRejected"
          license_data
          "applicant VRejected" "store_of [applicant VRejected] [profile7 False] []"
          "applicant VRejected" "profile7 False" license_data
          "applicant VVerified" "store_of [applicant VVerified] [profile7 True] []"
          "applicant VVerified" license_data]
      h1 h2 h3 id2
    by simp
qed

text \<open>
  C2 as stated fails on its first half.  Account 2 applied (Agent Profile 7, pending); the
  admin rejects the application, which leaves the profile in place; the account, now
  rejected, applies again and is refused.
\<close>

theorem reapply_after_rejection_counterexample:
  "verifyAgent (Some admin9) 7 (JStr ''reject'')
      (store_of [applicant VPending] [profile7 False] [])
     = Inr (store_of [applicant VRejected] [profile7 False] []) \<and>
   agentVerificationStatus (applicant VRejected) = VRejected \<and>
   apply_agent (Some (applicant VRejected)) license_data
      (store_of [applicant VRejected] [profile7 False] [])
     = Inl (AppError ''Agent application already submitted'' 400)"
  by (simp add: verifyAgent_def apply_agent_def applicant_def default_user_def store_of_def
      profile7_def admin9_def User_findById_def Agent_findById_def Agent_findOne_userId_def
      Agent_save_def Agent_validate_def Agent_replace_def required_str_def
      User_findByIdAndUpdate_status_def Let_def)

section \<open>One Agent Profile per account\<close>

lemma find_append_new:
  "find P xs = None \<Longrightarrow> P a \<Longrightarrow> find P (xs @ [a]) = Some a"
  by (induction xs) (auto split: if_splits)

lemma find_None_filter: "find P xs = None \<Longrightarrow> filter P xs = []"
  by (induction xs) (auto split: if_splits)

text \<open>
  C5, as the code has it.  When an \<open>apply\<close> call of an account succeeds, every further
  \<open>apply\<close> call of that account on the resulting store is refused with the 400
  "Agent application already submitted", and the store holds exactly one Agent Profile
  owned by the account.  The refusal comes from the controller's own lookup
  \<open>Agent.findOne({ userId })\<close>.
\<close>

theorem second_apply_refused:
  assumes "apply_agent (Some ru) b s = Inr (a, s')" and "u_id ru' = u_id ru"
  shows "apply_agent (Some ru') b' s' = Inl (AppError ''Agent application already submitted'' 400) \<and>
         length (filter (\<lambda>x. userId x = u_id ru) (agents s')) = 1"
proof -
  from assms(1) obtain u s1 where
    u: "User_findById (u_id ru) s = Some u" and
    nv: "agentVerificationStatus u \<noteq> VVerified" and
    none: "Agent_findOne_userId (u_id ru) s = None" and
    cr: "Agent_create (u_id ru) b False s = Inr (a, s1)" and
    s': "s' = User_save (u\<lparr>agentVerificationStatus := VPending, agentId := Some (a_id a)\<rparr>) s1"
    by (auto simp: apply_agent_def split: option.splits if_splits sum.splits)
  from cr have s1: "s1 = s\<lparr>agents := agents s @ [a], next_id := Suc (next_id s)\<rparr>"
    and own: "userId a = u_id ru"
    by (auto dest: Agent_create_result)
  have uid: "u_id u = u_id ru" using u by (rule User_findById_id)
  have ag: "agents s' = agents s @ [a]"
    by (simp add: s' s1 User_save_def)
  have "User_findById (u_id ru) s1 = Some u"
    using u by (simp add: User_findById_def s1)
  then have found: "User_findById (u_id ru) s'
      = Some (u\<lparr>agentVerificationStatus := VPending, agentId := Some (a_id a)\<rparr>)"
    unfolding s' by (rule User_findById_save) (simp add: uid)
  have ex: "Agent_findOne_userId (u_id ru) s' = Some a"
    using none own by (simp add: Agent_findOne_userId_def ag find_append_new)
  have refused: "apply_agent (Some ru') b' s'
      = Inl (AppError ''Agent application already submitted'' 400)"
    using found ex assms(2) by (simp add: apply_agent_def)
  have "filter (\<lambda>x. userId x = u_id ru) (agents s) = []"
    using none by (simp add: Agent_findOne_userId_def find_None_filter)
  then have "length (filter (\<lambda>x. userId x = u_id ru) (agents s')) = 1"
    by (simp add: ag own)
  with refused show ?thesis by simp
qed

lemma first_apply_run:
  "apply_agent (Some (default_user 2 Agent)) license_data (store_of [default_user 2 Agent] [] [])
     = Inr ((profile7 False)\<lparr>a_id := 100\<rparr>,
            \<lparr>users = [(default_user 2 Agent)\<lparr>agentId := Some 100,
                                               agentVerificationStatus := VPending\<rparr>],
             agents = [(profile7 False)\<lparr>a_id := 100\<rparr>], offices = [], properties = [],
             next_id = 101\<rparr>)"
  by (simp add: apply_agent_def default_user_def store_of_def profile7_def license_data_def
      User_findById_def Agent_findOne_userId_def Agent_create_def Agent_validate_def required_str_def
      no_unique_agent_index User_save_def Let_def)

theorem second_apply_refused_witness:
  "apply_agent (Some (default_user 2 Agent)) license_data
      \<lparr>users = [(default_user 2 Agent)\<lparr>agentId := Some 100,
                                         agentVerificationStatus := VPending\<rparr>],
       agents = [(profile7 False)\<lparr>a_id := 100\<rparr>], offices = [], properties = [],
       next_id = 101\<rparr>
     = Inl (AppError ''Agent application already submitted'' 400) \<and>
   length (filter (\<lambda>x. userId x = 2)
      (agents \<lparr>users = [(default_user 2 Agent)\<lparr>agentId := Some 100,
                                         agentVerificationStatus := VPending\<rparr>],
       agents = [(profile7 False)\<lparr>a_id := 100\<rparr>], offices = [], properties = [],
       next_id = 101\<rparr>)) = 1"
proof -
  have id2: "u_id (default_user 2 Agent) = 2" by (simp add: default_user_def)
  show ?thesis
    using second_apply_refused [OF first_apply_run refl, of license_data] id2
    by simp
qed

text \<open>
  C5 as stated fails on the storage layer: \<open>AgentSchema\<close> declares no unique index on
  \<open>userId\<close>, and \<open>Agent.create\<close> for account 2, which already owns profile 7, is accepted
  and leaves two profiles with the same owner.
\<close>

theorem duplicate_profile_counterexample:
  "\<not> unique_on_userId AgentSchema_indexes \<and>
   Agent_create 2 license_data False (store_of [applicant VPending] [profile7 False] [])
     = Inr ((profile7 False)\<lparr>a_id := 100\<rparr>,
            \<lparr>users = [applicant VPending],
             agents = [profile7 False, (profile7 False)\<lparr>a_id := 100\<rparr>],
             offices = [], properties = [], next_id = 101\<rparr>) \<and>
   map userId [profile7 False, (profile7 False)\<lparr>a_id := 100\<rparr>] = [2, 2]"
  by (simp add: unique_on_userId_def AgentSchema_indexes_def Agent_create_def Agent_validate_def store_of_def
      profile7_def license_data_def required_str_def duplicate_key_def Let_def)

section \<open>Verification by an admin\<close>

lemma User_findById_update_status:
  "User_findById i s = Some u \<Longrightarrow>
   User_findById i (User_findByIdAndUpdate_status i st s) = Some (u\<lparr>agentVerificationStatus := st\<rparr>)"
  unfolding User_findById_def User_findByIdAndUpdate_status_def
  by (simp add: find_map_update [where f = "\<lambda>x. x\<lparr>agentVerificationStatus := st\<rparr>"])

text \<open>
  C10.  An admin calls \<open>verifyAgent\<close> on a stored Agent Profile (one that passes the
  schema's validators, as every profile made by \<open>Agent.create\<close> does) whose owning account
  is stored, with any action other than the string "approve": the call succeeds, and
  afterwards the profile is inactive and the owning account is rejected.
\<close>

theorem verifyAgent_other_action_rejects:
  assumes "role admin = Admin"
    and "Agent_findById aid s = Some a"
    and "Agent_validate a"
    and "User_findById (userId a) s = Some owner"
    and "action \<noteq> JStr ''approve''"
  shows "\<exists>s'. verifyAgent (Some admin) aid action s = Inr s' \<and>
           map_option isActive (Agent_findById aid s') = Some False \<and>
           map_option agentVerificationStatus (User_findById (userId a) s') = Some VRejected"
proof -
  define s1 where "s1 = Agent_replace (a\<lparr>isActive := False\<rparr>) s"
  have aid: "a_id a = aid" using assms(2) by (rule Agent_findById_id)
  have oid: "u_id owner = userId a" using assms(4) by (rule User_findById_id)
  have sv: "Agent_save (a\<lparr>isActive := False\<rparr>) s = Inr s1"
    using assms(3) by (simp add: Agent_save_def Agent_validate_def s1_def)
  have u1: "User_findById (userId a) s1 = Some owner"
    using assms(4) by (simp add: s1_def Agent_replace_def User_findById_def)
  have run: "verifyAgent (Some admin) aid action s
      = Inr (User_findByIdAndUpdate_status (userId a) VRejected s1)"
    using assms(1,2,5) sv u1 by (simp add: verifyAgent_def Let_def oid)
  have "Agent_findById aid s1 = Some (a\<lparr>isActive := False\<rparr>)"
    unfolding s1_def using assms(2) by (rule Agent_findById_save) (simp add: aid)
  then have ag: "map_option isActive
      (Agent_findById aid (User_findByIdAndUpdate_status (userId a) VRejected s1)) = Some False"
    by (simp add: Agent_findById_def User_findByIdAndUpdate_status_def)
  have "map_option agentVerificationStatus
      (User_findById (userId a) (User_findByIdAndUpdate_status (userId a) VRejected s1))
      = Some VRejected"
    using u1 by (simp add: User_findById_update_status)
  with run ag show ?thesis by simp
qed

theorem verifyAgent_other_action_rejects_witness:
  "\<exists>s'. verifyAgent (Some admin9) 7 (JStr ''aprove'')
            (store_of [applicant VPending] [profile7 True] []) = Inr s' \<and>
         map_option isActive (Agent_findById 7 s') = Some False \<and>
         map_option agentVerificationStatus (User_findById 2 s') = Some VRejected"
proof -
  have h1: "role admin9 = Admin" by (simp add: admin9_def default_user_def)
  have h2: "Agent_findById 7 (store_of [applicant VPending] [profile7 True] [])
      = Some (profile7 True)"
    by (simp add: Agent_findById_def store_of_def profile7_def)
  have h3: "Agent_validate (profile7 True)"
    by (simp add: Agent_validate_def profile7_def required_str_def)
  have h4: "User_findById (userId (profile7 True))
      (store_of [applicant VPending] [profile7 True] []) = Some (applicant VPending)"
    by (simp add: User_findById_def store_of_def profile7_def applicant_def default_user_def)
  have h5: "JStr ''aprove'' \<noteq> JStr ''approve''" by simp
  have own: "userId (profile7 True) = 2" by (simp add: profile7_def)
  show ?thesis
    using verifyAgent_other_action_rejects [OF h1 h2 h3 h4 h5] own by simp
qed

section \<open>Who may manage a property\<close>

lemma manager_scope: "role user = Manager \<Longrightarrow>
    canManageProperty user property = (listingOffice property = None)"
  by (auto simp: canManageProperty_def office_def)

lemma agent_scope: "role user = Agent \<Longrightarrow>
    canManageProperty user property = (listingAgent property = Some (u_id user))"
  by (auto simp: canManageProperty_def)

text \<open>
  C3 at a manager's own office: manager 3 has \<open>officeId\<close> 50 and property 20 is listed
  under office 50, yet \<open>canManageProperty\<close> is false and the soft-delete answers 403
  "Access denied".  The check reads \<open>user.office\<close>, a path the User schema does not have.
\<close>

theorem manager_own_office_denied:
  "role manager3 = Manager \<and> officeId manager3 = listingOffice (listed 7 50) \<and>
   canManageProperty manager3 (listed 7 50) = False \<and>
   deleteProperty (Some manager3) 20 (store_of [manager3] [] [listed 7 50])
     = Inl (AppError ''Access denied'' 403)"
  by (simp add: manager3_def default_user_def listed_def canManageProperty_def office_def
      deleteProperty_def Property_findById_def store_of_def)

text \<open>
  C4 at an assigned agent: account 2 owns Agent Profile 7 (\<open>agentId\<close> 7) and property 20
  has \<open>listingAgent\<close> 7, yet \<open>canManageProperty\<close> is false; for a property whose
  \<open>listingAgent\<close> is 2, the account's own id, it is true.  The check compares
  \<open>user._id\<close>, not \<open>user.agentId\<close>.
\<close>

theorem assigned_agent_denied:
  "role (applicant VVerified) = Agent \<and>
   agentId (applicant VVerified) = listingAgent (listed 7 50) \<and>
   canManageProperty (applicant VVerified) (listed 7 50) = False \<and>
   agentId (applicant VVerified) \<noteq> listingAgent (listed 2 50) \<and>
   canManageProperty (applicant VVerified) (listed 2 50) = True"
  by (simp add: applicant_def default_user_def listed_def canManageProperty_def office_def)

section \<open>Assigning a property\<close>

lemma assignProperty_forbidden:
  "role user \<noteq> Admin \<Longrightarrow> role user \<noteq> Manager \<Longrightarrow>
   assignProperty (Some user) pid a obj s = Inl (AppError ''Access denied'' 403)"
  by (simp add: assignProperty_def)

lemma assignProperty_given_office:
  assumes "role user = Admin \<or> role user = Manager"
    and "Property_findById pid s = Some p"
  shows "assignProperty (Some user) pid (Some a) (Some obj) s
     = Inr (s\<lparr>properties := map (\<lambda>x. if p_id x = pid then
                p\<lparr>listingAgent := Some a, listingOffice := Some obj, status := Active\<rparr> else x)
              (properties s)\<rparr>)"
proof -
  have "p_id p = pid"
    using assms(2) unfolding Property_findById_def by (rule find_key_eq)
  with assms show ?thesis
    by (auto simp: assignProperty_def Property_save_def)
qed

text \<open>
  C8 without an office in the request: manager 3 (\<open>officeId\<close> 50) assigns property 20 to
  agent 7 and names no office.  The default \<open>user.office\<close> is undefined, the save fails the
  \<open>required\<close> validator of \<open>listingOffice\<close>, and the call ends in a validation error.
\<close>

theorem assign_default_office_fails:
  "role manager3 = Manager \<and> officeId manager3 = Some 50 \<and>
   assignProperty (Some manager3) 20 (Some 7) None (store_of [manager3] [] [listed 7 60])
     = Inl ValidationError"
  by (simp add: manager3_def default_user_def listed_def assignProperty_def office_def
      Property_findById_def Property_save_def store_of_def)

section \<open>The bound on saved searches\<close>

lemma addSavedSearch_bound:
  assumes "addSavedSearch req_user uid name filters emailAlerts frequency s = Inr s'"
  shows "\<exists>u u'. User_findById uid s = Some u \<and> User_findById uid s' = Some u' \<and>
           length (savedSearches u) < 10 \<and>
           length (savedSearches u') = Suc (length (savedSearches u))"
proof -
  from assms obtain u where u: "User_findById uid s = Some u"
    and lt: "length (savedSearches u) < 10"
    by (auto simp: addSavedSearch_def Let_def split: if_splits option.splits)
  have uid: "u_id u = uid" using u by (rule User_findById_id)
  from assms u lt obtain ss where
    s': "s' = User_save (u\<lparr>savedSearches := savedSearches u @ [ss]\<rparr>) s"
    by (auto simp: addSavedSearch_def Let_def split: if_splits option.splits)
  have "User_findById uid s' = Some (u\<lparr>savedSearches := savedSearches u @ [ss]\<rparr>)"
    unfolding s' using u by (rule User_findById_save) (simp add: uid)
  with u lt show ?thesis by simp
qed

lemma addSavedSearch_full:
  "User_findById uid s = Some u \<Longrightarrow> 10 \<le> length (savedSearches u) \<Longrightarrow>
   map_option u_id req_user = Some uid \<Longrightarrow> required_str name \<Longrightarrow> filters \<noteq> None \<Longrightarrow>
   addSavedSearch req_user uid name filters emailAlerts frequency s
     = Inl (AppError ''Maximum saved searches limit reached (10)'' 400)"
  by (simp add: addSavedSearch_def)

text \<open>
  C9 at a full account: account 1 holds 10 saved searches and completes the buyer
  onboarding with a property type.  The call succeeds and the account holds 11.
\<close>

theorem onboarding_exceeds_saved_search_bound:
  "map (length \<circ> savedSearches) (users (store_of [full_account] [] [])) = [10] \<and>
   map_sum id (map (length \<circ> savedSearches) \<circ> users)
     (completeOnboarding (Some full_account) 1 ''buyer'' (Some house_data)
        (store_of [full_account] [] [])) = Inr [11]"
  by (simp add: full_account_def default_user_def house_data_def no_data_def store_of_def
      completeOnboarding_def validRoles_def User_findById_def User_save_def
      completeBuyerOnboarding_def nonempty_opt_def set_onboardingCompleted_def Let_def)

section \<open>Creating an office\<close>

lemma db_write_session_committed: "committed (db_write True f d) = committed d"
  by (simp add: db_write_def)

lemma Office_create_session_committed:
  "committed (snd (Office_create True od d)) = committed d"
  by (simp add: Office_create_def Let_def db_write_session_committed
      split: option.splits prod.splits)

lemma createOffice_try_committed:
  "committed (snd (createOffice_try req_user req d)) = committed d"
proof -
  have tail: "committed (snd (case Office_create True od d of
             (Inl e, d1) \<Rightarrow> (Inl e, d1)
           | (Inr createdOffice, d1) \<Rightarrow>
               if c createdOffice then (Inl ValidationError, d1)
               else (Inr createdOffice,
                     db_write True (g createdOffice) (db_write True (f createdOffice) d1))))
      = committed d" for od c f g
    using Office_create_session_committed [of od d]
    by (cases "Office_create True od d")
       (auto simp: db_write_session_committed split: sum.splits)
  show ?thesis
    unfolding createOffice_try_def Let_def
    by (simp add: tail split: option.splits)
qed

text \<open>
  C6.  Whenever \<open>createOffice\<close> ends in an error, whichever check or write raised it, the
  committed store is the store before the call: no Office, Agent Profile or Account
  write of the transaction is persisted.
\<close>

theorem createOffice_failure_persists_nothing:
  "fst (createOffice req_user req s) = Inl e \<Longrightarrow> snd (createOffice req_user req s) = s"
proof -
  assume "fst (createOffice req_user req s) = Inl e"
  have "committed (snd (createOffice_try req_user req (startTransaction s))) = s"
    by (simp add: createOffice_try_committed startTransaction_def)
  then show "snd (createOffice req_user req s) = s"
    using \<open>fst (createOffice req_user req s) = Inl e\<close>
    by (cases "createOffice_try req_user req (startTransaction s)")
       (auto simp: createOffice_def abortTransaction_def split: sum.splits)
qed

theorem createOffice_failure_persists_nothing_witness:
  "fst (createOffice (Some admin9) office_request_100
          (store_of [admin9, applicant VPending] [profile7 False] []))
     = Inl (AppError ''Manager must be a verified agent'' 400) \<and>
   snd (createOffice (Some admin9) office_request_100
          (store_of [admin9, applicant VPending] [profile7 False] []))
     = store_of [admin9, applicant VPending] [profile7 False] []"
proof -
  have h: "fst (createOffice (Some admin9) office_request_100
          (store_of [admin9, applicant VPending] [profile7 False] []))
     = Inl (AppError ''Manager must be a verified agent'' 400)"
    by (simp add: createOffice_def createOffice_try_def startTransaction_def
        abortTransaction_def db_read_def admin9_def applicant_def default_user_def
        profile7_def store_of_def office_request_100_def User_findById_def
        Office_findOne_franchiseId_def Agent_findById_def User_findOne_agentId_def)
  show ?thesis
    using createOffice_failure_persists_nothing [OF h] h by simp
qed

lemma copy_allowed_keys: "fst ` set (copy_allowed body) \<subseteq> set allowedFields"
  by (auto simp: copy_allowed_def split: option.splits if_splits)

lemma establishedDate_not_copied:
  "path_value (copy_allowed body) [''establishedDate''] = JUndefined"
proof -
  have "''establishedDate'' \<notin> set allowedFields"
    by (simp add: allowedFields_def)
  then have "''establishedDate'' \<notin> fst ` set (copy_allowed body)"
    using copy_allowed_keys by blast
  then have "map_of (copy_allowed body) ''establishedDate'' = None"
    by (simp add: map_of_eq_None_iff)
  then show ?thesis by (simp add: path_value_def)
qed

lemma office_data_never_valid:
  "od_fields od = copy_allowed body \<Longrightarrow> \<not> Office_validate od"
  by (simp add: Office_validate_def Office_required_paths_def establishedDate_not_copied
      present_def)

lemma copied_office_data_invalid:
  "Office_validate \<lparr>od_fields = copy_allowed body, od_manager = m, od_agents = ags,
      od_franchiseId = f, od_totalAgents = n\<rparr> = False"
  using office_data_never_valid [of _ body] by simp

lemma Office_create_copied:
  "Office_create in_session \<lparr>od_fields = copy_allowed body, od_manager = m, od_agents = ags,
      od_franchiseId = f, od_totalAgents = n\<rparr> d = (Inl ValidationError, d)"
  by (simp add: Office_create_def copied_office_data_invalid)

lemma createOffice_never_succeeds:
  "fst (createOffice req_user req s) \<noteq> Inr created"
proof -
  have "fst (createOffice_try req_user req d) \<noteq> Inr created" for d
    by (simp add: createOffice_try_def Let_def Office_create_copied split: option.splits)
  from this [of "startTransaction s"] show ?thesis
    by (cases "createOffice_try req_user req (startTransaction s)")
       (auto simp: createOffice_def split: sum.splits)
qed

text \<open>
  C7 at a request that meets every precondition: admin 9 creates an office with franchise
  id RMX-100, no office holds that id, the nominee is Agent Profile 7 of the verified
  account 2, and the body carries every required path, \<open>establishedDate\<close> included.
  \<open>establishedDate\<close> is required by the Office schema and absent from \<open>allowedFields\<close>, so
  it never reaches \<open>officeData\<close>: \<open>Office.create\<close> fails validation, and no office exists
  and no account is promoted afterwards.
\<close>

theorem createOffice_valid_request_fails:
  "createOffice (Some admin9) office_request_100
      (store_of [admin9, applicant VVerified] [profile7 True] [])
     = (Inl ValidationError, store_of [admin9, applicant VVerified] [profile7 True] [])"
  by (simp add: createOffice_def createOffice_try_def startTransaction_def
      abortTransaction_def db_read_def admin9_def applicant_def default_user_def
      profile7_def store_of_def office_request_100_def User_findById_def
      Office_findOne_franchiseId_def Agent_findById_def User_findOne_agentId_def
      Office_create_def copied_office_data_invalid Let_def)

end
